theory Spec2Isabelle
  imports Complex_Main
begin

section \<open>Data model\<close>

text \<open>
  Money is a Python float in the source. The model computes with exact rationals, so a
  sum such as 50 + 1 * 0.05 is exactly 50.05 here, where the source gets the nearest
  double. Durations, minute counts, months and years are Python ints.
\<close>

type_synonym money = rat

text \<open>
  Bill and PhoneLine objects are shared by reference: the bill a PhoneLine stores under
  (month, year) is the very object its contract mutates. Objects live in stores indexed
  by references; a store is total, so a reference never dangles.
\<close>

type_synonym bill_ref = nat
type_synonym line_ref = nat

datatype error = AttributeError | TypeError

text \<open>\<^verbatim>\<open>datetime.date\<close>: only its three fields are read.\<close>

record date =
  year :: int
  month :: int
  day :: int

text \<open>
  Modelled from the spec: class \<^verbatim>\<open>Call\<close> (call.py is not among the sources). The
  billing code reads nothing of a call but \<^verbatim>\<open>duration\<close>, in seconds.
\<close>

record Call =
  duration :: int

text \<open>
  Modelled from the spec: class \<^verbatim>\<open>Bill\<close> (bill.py is not among the sources), section
  4.1: accumulated fixed cost, rate label and rate per minute, free and billed minute
  counts. contract.py writes the attribute \<^verbatim>\<open>free_min\<close> directly and calls
  \<^verbatim>\<open>set_rates\<close>, \<^verbatim>\<open>add_fixed_cost\<close>, \<^verbatim>\<open>add_billed_minutes\<close> and \<^verbatim>\<open>get_cost\<close>.
\<close>

record Bill =
  fixed_cost :: money
  rate_per_minute :: money
  rate_label :: string
  free_min :: int
  billed_minutes :: int

type_synonym store = "bill_ref \<Rightarrow> Bill"

text \<open>
  Modelled from the spec: \<^verbatim>\<open>Bill()\<close>, a bill "created fresh": nothing accumulated yet
  (the tests read a total of 320 off a fresh bill after one term advance).
\<close>

definition Bill_init :: Bill where
  "Bill_init = \<lparr>fixed_cost = 0, rate_per_minute = 0, rate_label = [], free_min = 0,
                billed_minutes = 0\<rparr>"

text \<open>Modelled from the spec: \<^verbatim>\<open>Bill.set_rates\<close> ("sets the label and per-minute rate").\<close>

definition set_rates :: "string \<Rightarrow> money \<Rightarrow> Bill \<Rightarrow> Bill" where
  "set_rates label rate b = b\<lparr>rate_label := label, rate_per_minute := rate\<rparr>"

text \<open>Modelled from the spec: \<^verbatim>\<open>Bill.add_fixed_cost\<close> ("adds (possibly negative) amount").\<close>

definition add_fixed_cost :: "money \<Rightarrow> Bill \<Rightarrow> Bill" where
  "add_fixed_cost amount b = b\<lparr>fixed_cost := fixed_cost b + amount\<rparr>"

text \<open>Modelled from the spec: \<^verbatim>\<open>Bill.add_billed_minutes\<close> ("increments billed minutes").\<close>

definition add_billed_minutes :: "int \<Rightarrow> Bill \<Rightarrow> Bill" where
  "add_billed_minutes n b = b\<lparr>billed_minutes := billed_minutes b + n\<rparr>"

text \<open>
  Modelled from the spec: \<^verbatim>\<open>Bill.get_cost\<close>, the spec's total cost,
  fixed cost + billed minutes * rate per minute.
\<close>

definition get_cost :: "Bill \<Rightarrow> money" where
  "get_cost b = fixed_cost b + of_int (billed_minutes b) * rate_per_minute b"

subsection \<open>Constants of contract.py\<close>

definition MTM_MONTHLY_FEE :: money where "MTM_MONTHLY_FEE = 50"
definition TERM_MONTHLY_FEE :: money where "TERM_MONTHLY_FEE = 20"
definition TERM_DEPOSIT :: money where "TERM_DEPOSIT = 300"
definition TERM_MINS :: int where "TERM_MINS = 100"
definition MTM_MINS_COST :: money where "MTM_MINS_COST = 5 / 100"
definition TERM_MINS_COST :: money where "TERM_MINS_COST = 1 / 10"
definition PREPAID_MINS_COST :: money where "PREPAID_MINS_COST = 25 / 1000"

subsection \<open>Contracts\<close>

text \<open>
  The class hierarchy as record extension. \<^verbatim>\<open>bill\<close> is \<open>None\<close> both when the attribute
  holds Python's None and when it was never assigned (TermContract and PrepaidContract do
  not call the base constructor): reading a method off it raises AttributeError either way.
\<close>

record Contract =
  start :: "date option"
  bill :: "bill_ref option"

text \<open>
  \<^verbatim>\<open>saved_month\<close> starts as the int 0 and holds a (month, year) tuple after the first
  \<^verbatim>\<open>new_month\<close>; \<open>None\<close> is the int 0.
\<close>

record TermContract = Contract +
  end_date :: "date option"
  term_minutes :: int
  saved_month :: "(int \<times> int) option"

type_synonym MTMContract = Contract

record PrepaidContract = Contract +
  balance :: int

definition TermContract_init :: "date \<Rightarrow> date \<Rightarrow> TermContract" where
  "TermContract_init s e =
     \<lparr>start = Some s, bill = None, end_date = Some e, term_minutes = 0, saved_month = None\<rparr>"

definition MTMContract_init :: "date \<Rightarrow> MTMContract" where
  "MTMContract_init s = \<lparr>start = Some s, bill = None\<rparr>"

definition PrepaidContract_init :: "date \<Rightarrow> int \<Rightarrow> PrepaidContract" where
  "PrepaidContract_init s bal = \<lparr>start = Some s, bill = None, balance = bal\<rparr>"

section \<open>The billing engine (contract.py)\<close>

text \<open>
  \<^verbatim>\<open>ceil(call.duration / 60.0)\<close>. The quotient is a double in the source; for an int
  duration below \<open>2 ^ 53\<close> in absolute value the rounded quotient lies strictly between
  the same two integers as the exact one (it is off by less than 1/60), so its ceiling is
  the exact ceiling, which is what the model computes.
\<close>

definition ceil_minutes :: "int \<Rightarrow> int" where
  "ceil_minutes d = \<lceil>(of_int d :: rat) / 60\<rceil>"

text \<open>
  Python orders tuples lexicographically, first component first: here the month, then
  the year.
\<close>

definition tuple_gt :: "int \<times> int \<Rightarrow> int \<times> int \<Rightarrow> bool" where
  "tuple_gt p q = (fst p > fst q \<or> (fst p = fst q \<and> snd p > snd q))"

definition tuple_lt :: "int \<times> int \<Rightarrow> int \<times> int \<Rightarrow> bool" where
  "tuple_lt p q = (fst p < fst q \<or> (fst p = fst q \<and> snd p < snd q))"

text \<open>
  Every operation takes the receiver and the store of bills and returns them updated, or
  the exception it raises. The state an exception leaves behind is not modelled.
\<close>

text \<open>\<^verbatim>\<open>Contract.bill_call\<close>, inherited by MTMContract.\<close>

definition Contract_bill_call ::
  "Call \<Rightarrow> 'a Contract_scheme \<Rightarrow> store \<Rightarrow> error + ('a Contract_scheme \<times> store)" where
  "Contract_bill_call call c \<sigma> =
     (case bill c of
        None \<Rightarrow> Inl AttributeError
      | Some b \<Rightarrow> Inr (c, \<sigma>(b := add_billed_minutes (ceil_minutes (duration call)) (\<sigma> b))))"

text \<open>
  \<^verbatim>\<open>Contract.cancel_contract\<close>, inherited by MTMContract. The result is \<open>Some\<close> of the
  float returned; \<open>None\<close> is Python's None.
\<close>

definition Contract_cancel_contract ::
  "'a Contract_scheme \<Rightarrow> store \<Rightarrow> error + (money option \<times> 'a Contract_scheme \<times> store)" where
  "Contract_cancel_contract c \<sigma> =
     (let c1 = c\<lparr>start := None\<rparr> in
      case bill c1 of
        None \<Rightarrow> Inl AttributeError
      | Some b \<Rightarrow> Inr (Some (get_cost (\<sigma> b)), c1, \<sigma>))"

subsection \<open>TermContract\<close>

definition Term_new_month ::
  "int \<Rightarrow> int \<Rightarrow> bill_ref \<Rightarrow> TermContract \<Rightarrow> store \<Rightarrow> error + (TermContract \<times> store)" where
  "Term_new_month mth yr b c \<sigma> =
     (let c1 = c\<lparr>bill := Some b\<rparr>;
          \<sigma>1 = \<sigma>(b := set_rates ''TERM'' TERM_MINS_COST (\<sigma> b));
          c2 = c1\<lparr>term_minutes := 100\<rparr>;
          \<sigma>2 = \<sigma>1(b := add_fixed_cost TERM_MONTHLY_FEE (\<sigma>1 b))
      in case start c2 of
           None \<Rightarrow> Inl AttributeError
         | Some s \<Rightarrow>
             let \<sigma>3 = (if (mth, yr) = (month s, year s)
                       then \<sigma>2(b := add_fixed_cost TERM_DEPOSIT (\<sigma>2 b)) else \<sigma>2)
             in Inr (c2\<lparr>saved_month := Some (mth, yr)\<rparr>, \<sigma>3))"

definition Term_bill_call ::
  "Call \<Rightarrow> TermContract \<Rightarrow> store \<Rightarrow> error + (TermContract \<times> store)" where
  "Term_bill_call call c \<sigma> =
     (if term_minutes c > 0 then
        (case bill c of
           None \<Rightarrow> Inl AttributeError
         | Some b \<Rightarrow>
             let \<sigma>1 = \<sigma>(b := (\<sigma> b)\<lparr>free_min := free_min (\<sigma> b) + ceil_minutes (duration call)\<rparr>);
                 c1 = c\<lparr>term_minutes := term_minutes c - ceil_minutes (duration call)\<rparr>
             in if term_minutes c1 < 0
                then Inr (c1, \<sigma>1(b := add_billed_minutes (term_minutes c1 * - 1) (\<sigma>1 b)))
                else Inr (c1, \<sigma>1))
      else if term_minutes c = 0 then
        (case bill c of
           None \<Rightarrow> Inl AttributeError
         | Some b \<Rightarrow> Inr (c, \<sigma>(b := add_billed_minutes (ceil_minutes (duration call)) (\<sigma> b))))
      else Inr (c, \<sigma>))"

text \<open>
  \<^verbatim>\<open>TermContract.cancel_contract\<close>. Both branches call \<^verbatim>\<open>self.bill.get_cost()\<close> and drop
  its value; the method has no \<^verbatim>\<open>return\<close>, so it returns None on every path. The
  comparison evaluates \<^verbatim>\<open>self.end.month\<close> first (AttributeError once \<^verbatim>\<open>end\<close> is None),
  then compares \<^verbatim>\<open>saved_month\<close> with the tuple (TypeError while it is still the int 0).
\<close>

definition Term_cancel_contract ::
  "TermContract \<Rightarrow> store \<Rightarrow> error + (money option \<times> TermContract \<times> store)" where
  "Term_cancel_contract c \<sigma> =
     (case end_date c of
        None \<Rightarrow> Inl AttributeError
      | Some e \<Rightarrow>
          (case saved_month c of
             None \<Rightarrow> Inl TypeError
           | Some sm \<Rightarrow>
               if tuple_gt sm (month e, year e) then
                 (case bill c of
                    None \<Rightarrow> Inl AttributeError
                  | Some b \<Rightarrow>
                      let c1 = c\<lparr>start := None, end_date := None\<rparr>;
                          \<sigma>1 = \<sigma>(b := add_fixed_cost (- 300) (\<sigma> b));
                          dropped = get_cost (\<sigma>1 b)
                      in Inr (None, c1, \<sigma>1))
               else if tuple_lt sm (month e, year e) then
                 (case bill c of
                    None \<Rightarrow> Inl AttributeError
                  | Some b \<Rightarrow>
                      let c1 = c\<lparr>start := None, end_date := None\<rparr>;
                          dropped = get_cost (\<sigma> b)
                      in Inr (None, c1, \<sigma>))
               else Inr (None, c, \<sigma>)))"

subsection \<open>MTMContract\<close>

definition MTM_new_month ::
  "int \<Rightarrow> int \<Rightarrow> bill_ref \<Rightarrow> MTMContract \<Rightarrow> store \<Rightarrow> error + (MTMContract \<times> store)" where
  "MTM_new_month mth yr b c \<sigma> =
     (let c1 = c\<lparr>bill := Some b\<rparr>;
          \<sigma>1 = \<sigma>(b := set_rates ''MTM'' MTM_MINS_COST (\<sigma> b));
          \<sigma>2 = \<sigma>1(b := add_fixed_cost MTM_MONTHLY_FEE (\<sigma>1 b))
      in Inr (c1, \<sigma>2))"

subsection \<open>PrepaidContract\<close>

definition Prepaid_new_month ::
  "int \<Rightarrow> int \<Rightarrow> bill_ref \<Rightarrow> PrepaidContract \<Rightarrow> store \<Rightarrow> error + (PrepaidContract \<times> store)" where
  "Prepaid_new_month mth yr b c \<sigma> =
     (let c1 = c\<lparr>bill := Some b\<rparr>;
          \<sigma>1 = \<sigma>(b := set_rates ''PREPAID'' PREPAID_MINS_COST (\<sigma> b));
          \<sigma>2 = \<sigma>1(b := add_fixed_cost (of_int (balance c1 * - 1)) (\<sigma>1 b));
          c2 = (if balance c1 > - 10 then c1\<lparr>balance := balance c1 - 25\<rparr> else c1)
      in Inr (c2, \<sigma>2))"

definition Prepaid_bill_call ::
  "Call \<Rightarrow> PrepaidContract \<Rightarrow> store \<Rightarrow> error + (PrepaidContract \<times> store)" where
  "Prepaid_bill_call call c \<sigma> =
     (case bill c of
        None \<Rightarrow> Inl AttributeError
      | Some b \<Rightarrow> Inr (c, \<sigma>(b := add_billed_minutes (ceil_minutes (duration call)) (\<sigma> b))))"

definition Prepaid_cancel_contract ::
  "PrepaidContract \<Rightarrow> store \<Rightarrow> error + (money option \<times> PrepaidContract \<times> store)" where
  "Prepaid_cancel_contract c \<sigma> =
     (let c1 = c\<lparr>start := None\<rparr> in
      if balance c1 > 0 then
        (case bill c1 of
           None \<Rightarrow> Inl AttributeError
         | Some b \<Rightarrow>
             let \<sigma>1 = \<sigma>(b := add_fixed_cost (of_int (balance c1)) (\<sigma> b))
             in Inr (Some (get_cost (\<sigma>1 b)), c1, \<sigma>1))
      else Inr (Some 0, c1, \<sigma>))"

subsection \<open>Dynamic dispatch\<close>

text \<open>
  A phone line holds a contract of any of the three classes; a method call on it runs
  the method of the object's class. MTMContract inherits \<^verbatim>\<open>bill_call\<close> and
  \<^verbatim>\<open>cancel_contract\<close> from Contract. (The abstract class itself, whose
  \<^verbatim>\<open>new_month\<close> raises NotImplementedError, is never instantiated.)
\<close>

datatype contract = Term TermContract | MTM MTMContract | Prepaid PrepaidContract

fun new_month ::
  "int \<Rightarrow> int \<Rightarrow> bill_ref \<Rightarrow> contract \<Rightarrow> store \<Rightarrow> error + (contract \<times> store)" where
  "new_month mth yr b (Term c) \<sigma> =
     (case Term_new_month mth yr b c \<sigma> of Inl e \<Rightarrow> Inl e | Inr (c', \<sigma>') \<Rightarrow> Inr (Term c', \<sigma>'))"
| "new_month mth yr b (MTM c) \<sigma> =
     (case MTM_new_month mth yr b c \<sigma> of Inl e \<Rightarrow> Inl e | Inr (c', \<sigma>') \<Rightarrow> Inr (MTM c', \<sigma>'))"
| "new_month mth yr b (Prepaid c) \<sigma> =
     (case Prepaid_new_month mth yr b c \<sigma> of
        Inl e \<Rightarrow> Inl e | Inr (c', \<sigma>') \<Rightarrow> Inr (Prepaid c', \<sigma>'))"

fun bill_call :: "Call \<Rightarrow> contract \<Rightarrow> store \<Rightarrow> error + (contract \<times> store)" where
  "bill_call call (Term c) \<sigma> =
     (case Term_bill_call call c \<sigma> of Inl e \<Rightarrow> Inl e | Inr (c', \<sigma>') \<Rightarrow> Inr (Term c', \<sigma>'))"
| "bill_call call (MTM c) \<sigma> =
     (case Contract_bill_call call c \<sigma> of Inl e \<Rightarrow> Inl e | Inr (c', \<sigma>') \<Rightarrow> Inr (MTM c', \<sigma>'))"
| "bill_call call (Prepaid c) \<sigma> =
     (case Prepaid_bill_call call c \<sigma> of
        Inl e \<Rightarrow> Inl e | Inr (c', \<sigma>') \<Rightarrow> Inr (Prepaid c', \<sigma>'))"

fun cancel_contract ::
  "contract \<Rightarrow> store \<Rightarrow> error + (money option \<times> contract \<times> store)" where
  "cancel_contract (Term c) \<sigma> =
     (case Term_cancel_contract c \<sigma> of
        Inl e \<Rightarrow> Inl e | Inr (fee, c', \<sigma>') \<Rightarrow> Inr (fee, Term c', \<sigma>'))"
| "cancel_contract (MTM c) \<sigma> =
     (case Contract_cancel_contract c \<sigma> of
        Inl e \<Rightarrow> Inl e | Inr (fee, c', \<sigma>') \<Rightarrow> Inr (fee, MTM c', \<sigma>'))"
| "cancel_contract (Prepaid c) \<sigma> =
     (case Prepaid_cancel_contract c \<sigma> of
        Inl e \<Rightarrow> Inl e | Inr (fee, c', \<sigma>') \<Rightarrow> Inr (fee, Prepaid c', \<sigma>'))"

section \<open>Phone lines (phoneline.py)\<close>

text \<open>
  \<^verbatim>\<open>bills\<close> is the dictionary from (month, year) to the Bill object of that cycle. The
  call history takes no part in billing and is left out.
\<close>

record PhoneLine =
  number :: string
  contract :: contract
  bills :: "int \<times> int \<rightharpoonup> bill_ref"

definition PhoneLine_init :: "string \<Rightarrow> contract \<Rightarrow> PhoneLine" where
  "PhoneLine_init n c = \<lparr>number = n, contract = c, bills = Map.empty\<rparr>"

text \<open>
  The heap of bills: the store and the next unused reference, which \<^verbatim>\<open>Bill()\<close>
  allocates.
\<close>

record heap =
  bill_at :: store
  next_ref :: bill_ref

definition PhoneLine_new_month ::
  "int \<Rightarrow> int \<Rightarrow> PhoneLine \<Rightarrow> heap \<Rightarrow> error + (PhoneLine \<times> heap)" where
  "PhoneLine_new_month mth yr pl h =
     (if (mth, yr) \<notin> dom (bills pl) then
        let r = next_ref h;
            h1 = h\<lparr>bill_at := (bill_at h)(r := Bill_init), next_ref := r + 1\<rparr>;
            pl1 = pl\<lparr>bills := (bills pl)((mth, yr) \<mapsto> r)\<rparr>
        in case new_month mth yr r (contract pl1) (bill_at h1) of
             Inl e \<Rightarrow> Inl e
           | Inr (c', \<sigma>') \<Rightarrow> Inr (pl1\<lparr>contract := c'\<rparr>, h1\<lparr>bill_at := \<sigma>'\<rparr>)
      else Inr (pl, h))"

definition cancel_line ::
  "PhoneLine \<Rightarrow> store \<Rightarrow> error + (money option \<times> PhoneLine \<times> store)" where
  "cancel_line pl \<sigma> =
     (case cancel_contract (contract pl) \<sigma> of
        Inl e \<Rightarrow> Inl e
      | Inr (fee, c', \<sigma>') \<Rightarrow> Inr (fee, pl\<lparr>contract := c'\<rparr>, \<sigma>'))"

definition get_number :: "PhoneLine \<Rightarrow> string" where
  "get_number pl = number pl"

section \<open>Customers (customer.py)\<close>

text \<open>
  \<^verbatim>\<open>_phone_lines\<close> is a list of PhoneLine objects: references into a store of phone
  lines, since \<^verbatim>\<open>list.remove\<close> finds its argument by identity (PhoneLine defines no
  equality of its own).
\<close>

record Customer =
  cid :: int
  phone_lines :: "line_ref list"

type_synonym lines = "line_ref \<Rightarrow> PhoneLine"

definition Customer_init :: "int \<Rightarrow> Customer" where
  "Customer_init i = \<lparr>cid = i, phone_lines = []\<rparr>"

definition add_phone_line :: "line_ref \<Rightarrow> Customer \<Rightarrow> Customer" where
  "add_phone_line r c = c\<lparr>phone_lines := phone_lines c @ [r]\<rparr>"

definition get_phone_numbers :: "Customer \<Rightarrow> lines \<Rightarrow> string list" where
  "get_phone_numbers c L = map (\<lambda>r. get_number (L r)) (phone_lines c)"

text \<open>
  \<^verbatim>\<open>Customer.new_month\<close>: every line in turn. This loop does not change the list it
  runs over.
\<close>

fun new_month_lines ::
  "int \<Rightarrow> int \<Rightarrow> line_ref list \<Rightarrow> lines \<Rightarrow> heap \<Rightarrow> error + (lines \<times> heap)" where
  "new_month_lines mth yr [] L h = Inr (L, h)"
| "new_month_lines mth yr (r # rs) L h =
     (case PhoneLine_new_month mth yr (L r) h of
        Inl e \<Rightarrow> Inl e
      | Inr (pl', h') \<Rightarrow> new_month_lines mth yr rs (L(r := pl')) h')"

definition Customer_new_month ::
  "int \<Rightarrow> int \<Rightarrow> Customer \<Rightarrow> lines \<Rightarrow> heap \<Rightarrow> error + (lines \<times> heap)" where
  "Customer_new_month mth yr c L h = new_month_lines mth yr (phone_lines c) L h"

text \<open>
  The loop of \<^verbatim>\<open>cancel_phone_line\<close>. A Python \<^verbatim>\<open>for\<close> over a list keeps an index into
  the list as it is at each step: it stops when the index reaches the current length, so
  after \<^verbatim>\<open>remove\<close> the element that slid into the freed position is skipped.
  \<open>remove1\<close> deletes the first occurrence, as \<^verbatim>\<open>list.remove\<close> does; the line is removed
  before its contract is cancelled.
\<close>

function cancel_loop ::
  "string \<Rightarrow> nat \<Rightarrow> money option \<Rightarrow> line_ref list \<Rightarrow> lines \<Rightarrow> store \<Rightarrow>
   error + (money option \<times> line_ref list \<times> lines \<times> store)" where
  "cancel_loop num i fee ls L \<sigma> =
     (if i < length ls then
        let r = ls ! i in
        if get_number (L r) = num then
          (case cancel_line (L r) \<sigma> of
             Inl e \<Rightarrow> Inl e
           | Inr (f, pl', \<sigma>') \<Rightarrow> cancel_loop num (i + 1) f (remove1 r ls) (L(r := pl')) \<sigma>')
        else cancel_loop num (i + 1) fee ls L \<sigma>
      else Inr (fee, ls, L, \<sigma>))"
  by pat_completeness auto
termination
  by (relation "measure (\<lambda>(num, i, fee, ls, L, \<sigma>). length ls - i)")
     (auto simp: length_remove1)

definition cancel_phone_line ::
  "string \<Rightarrow> Customer \<Rightarrow> lines \<Rightarrow> store \<Rightarrow>
   error + (money option \<times> Customer \<times> lines \<times> store)" where
  "cancel_phone_line num c L \<sigma> =
     (case cancel_loop num 0 None (phone_lines c) L \<sigma> of
        Inl e \<Rightarrow> Inl e
      | Inr (fee, ls, L', \<sigma>') \<Rightarrow> Inr (fee, c\<lparr>phone_lines := ls\<rparr>, L', \<sigma>'))"

section \<open>Sample data (sample_tests.py)\<close>

text \<open>
  The dates of \<^verbatim>\<open>create_single_customer_with_all_lines\<close>, a store in which
  every reference holds a fresh bill, and the heap that has allocated none of them.
\<close>

definition sample_start :: date where
  "sample_start = \<lparr>year = 2017, month = 12, day = 25\<rparr>"

definition sample_end :: date where
  "sample_end = \<lparr>year = 2019, month = 6, day = 25\<rparr>"

definition fresh_store :: store where
  "fresh_store = (\<lambda>r. Bill_init)"

definition empty_heap :: heap where
  "empty_heap = \<lparr>bill_at = fresh_store, next_ref = 0\<rparr>"

text \<open>
  The customer of \<^verbatim>\<open>create_single_customer_with_all_lines\<close>, before its
  \<^verbatim>\<open>new_month(12, 2017)\<close>: a term, a month-to-month and a prepaid line, at the
  references 0, 1 and 2 (the store is total: the references not in use hold the prepaid
  line as well).
\<close>

definition sample_lines :: lines where
  "sample_lines =
     (\<lambda>r. PhoneLine_init ''649-2568'' (Prepaid (PrepaidContract_init sample_start 100)))
       (0 := PhoneLine_init ''867-5309'' (Term (TermContract_init sample_start sample_end)),
        1 := PhoneLine_init ''273-8255'' (MTM (MTMContract_init sample_start)))"

definition sample_customer :: Customer where
  "sample_customer =
     add_phone_line 2 (add_phone_line 1 (add_phone_line 0 (Customer_init 5555)))"

section \<open>Facts about the model\<close>

lemmas contract_consts =
  MTM_MONTHLY_FEE_def TERM_MONTHLY_FEE_def TERM_DEPOSIT_def TERM_MINS_def
  MTM_MINS_COST_def TERM_MINS_COST_def PREPAID_MINS_COST_def

lemmas bill_ops =
  Bill_init_def set_rates_def add_fixed_cost_def add_billed_minutes_def get_cost_def

declare cancel_loop.simps [simp del]

lemmas samples =
  sample_start_def sample_end_def fresh_store_def TermContract_init_def
  MTMContract_init_def PrepaidContract_init_def

text \<open>The ceiling of the quotient, in integer arithmetic.\<close>

lemma ceil_minutes_div: "ceil_minutes d = - ((- d) div 60)"
  unfolding ceil_minutes_def
  using ceiling_divide_eq_div [of d 60, where ?'a = rat] by simp

section \<open>TermContract\<close>

text \<open>Whatever its state, \<^verbatim>\<open>TermContract.cancel_contract\<close> returns no amount.\<close>

lemma Term_cancel_contract_no_amount:
  "Term_cancel_contract c \<sigma> \<noteq> Inr (Some amount, c', \<sigma>')"
  by (simp add: Term_cancel_contract_def Let_def split: option.splits)

text \<open>
  A call that fits into the minutes remaining is free: its minutes are added to
  \<^verbatim>\<open>free_min\<close> and taken off the allotment, and nothing is billed.
\<close>

lemma Term_bill_call_within_allotment:
  assumes "bill c = Some b" and "0 < term_minutes c"
    and "ceil_minutes (duration call) \<le> term_minutes c"
  shows "Term_bill_call call c \<sigma> =
     Inr (c\<lparr>term_minutes := term_minutes c - ceil_minutes (duration call)\<rparr>,
          \<sigma>(b := (\<sigma> b)\<lparr>free_min := free_min (\<sigma> b) + ceil_minutes (duration call)\<rparr>))"
  using assms by (simp add: Term_bill_call_def Let_def)

text \<open>
  C1. The specification: after \<^verbatim>\<open>new_month\<close>, \<^verbatim>\<open>cancel_contract\<close> of a TermContract returns the
  final bill's total, after refunding 300 when the last cycle is after the end date's
  (month, year), and untouched when it is before.

  The code computes the total and drops it: the method returns None on both paths. For
  the sample contract (end date June 2019) advanced to July 2019, the refund is applied
  and the bill totals -280, yet None is returned; advanced to May 2019, the bill totals 20
  and None is returned.
\<close>

theorem Term_cancel_contract_returns_None:
  "(\<exists>c1 \<sigma>1 c2 \<sigma>2.
      Term_new_month 7 2019 0 (TermContract_init sample_start sample_end) fresh_store
        = Inr (c1, \<sigma>1)
      \<and> Term_cancel_contract c1 \<sigma>1 = Inr (None, c2, \<sigma>2)
      \<and> get_cost (\<sigma>2 0) = - 280)
   \<and> (\<exists>c1 \<sigma>1 c2 \<sigma>2.
      Term_new_month 5 2019 0 (TermContract_init sample_start sample_end) fresh_store
        = Inr (c1, \<sigma>1)
      \<and> Term_cancel_contract c1 \<sigma>1 = Inr (None, c2, \<sigma>2)
      \<and> get_cost (\<sigma>2 0) = 20)"
  by (simp add: Term_new_month_def Term_cancel_contract_def samples bill_ops contract_consts
      tuple_gt_def tuple_lt_def)

text \<open>
  C2. The specification: a call billed on a TermContract with minutes remaining adds at most
  the remaining allotment as free minutes and only the excess as billed minutes, so that
  over a cycle free minutes plus billed minutes is the total of the calls' minutes.

  The code adds all of the call's minutes to \<^verbatim>\<open>free_min\<close> and the excess to the billed
  minutes as well. With 100 minutes remaining, a call of 9000 seconds (150 minutes) records
  150 free and 50 billed minutes, 200 in all. It leaves \<^verbatim>\<open>term_minutes\<close> at -50, and then
  neither branch of \<^verbatim>\<open>bill_call\<close> applies: the next call records nothing.
\<close>

theorem Term_bill_call_counts_excess_twice:
  "\<exists>c1 \<sigma>1 c2 \<sigma>2.
      Term_new_month 1 2018 0 (TermContract_init sample_start sample_end) fresh_store
        = Inr (c1, \<sigma>1)
      \<and> term_minutes c1 = 100 \<and> ceil_minutes 9000 = 150
      \<and> Term_bill_call \<lparr>duration = 9000\<rparr> c1 \<sigma>1 = Inr (c2, \<sigma>2)
      \<and> free_min (\<sigma>2 0) = 150 \<and> billed_minutes (\<sigma>2 0) = 50 \<and> term_minutes c2 = - 50
      \<and> Term_bill_call \<lparr>duration = 60\<rparr> c2 \<sigma>2 = Inr (c2, \<sigma>2)"
  by (simp add: Term_new_month_def Term_bill_call_def samples bill_ops contract_consts
      ceil_minutes_div)

text \<open>
  C3. The specification: \<^verbatim>\<open>cancel_contract\<close> decides "after the end date" by year, then month,
  so a last cycle in a later year always gets the deposit back.

  The code compares (month, year) tuples, month first. For the sample contract (end date
  June 2019) advanced to January 2020, (1, 2020) is below (6, 2019): the early-closing
  branch runs and the bill keeps its fixed cost of 20.
\<close>

theorem Term_cancel_contract_compares_month_first:
  "\<exists>c1 \<sigma>1 c2.
      Term_new_month 1 2020 0 (TermContract_init sample_start sample_end) fresh_store
        = Inr (c1, \<sigma>1)
      \<and> fixed_cost (\<sigma>1 0) = 20
      \<and> \<not> tuple_gt (1, 2020) (month sample_end, year sample_end)
      \<and> Term_cancel_contract c1 \<sigma>1 = Inr (None, c2, \<sigma>1)"
  by (simp add: Term_new_month_def Term_cancel_contract_def samples bill_ops contract_consts
      tuple_gt_def tuple_lt_def)

text \<open>
  C6. \<^verbatim>\<open>new_month\<close> of a TermContract that has its start date: the bill it is given gets
  the label TERM at 0.10 a minute, the allotment is reset to 100, the fixed cost grows by
  20, and by 300 more exactly when (month, year) is the start date's; (month, year) is
  recorded as the last cycle.
\<close>

theorem Term_new_month_cycle:
  assumes "start c = Some s"
  shows "\<exists>c' \<sigma>'. Term_new_month mth yr b c \<sigma> = Inr (c', \<sigma>')
     \<and> rate_label (\<sigma>' b) = ''TERM'' \<and> rate_per_minute (\<sigma>' b) = 1 / 10
     \<and> term_minutes c' = 100 \<and> saved_month c' = Some (mth, yr) \<and> bill c' = Some b
     \<and> fixed_cost (\<sigma>' b) =
         fixed_cost (\<sigma> b) + 20 + (if (mth, yr) = (month s, year s) then 300 else 0)"
  using assms by (simp add: Term_new_month_def bill_ops contract_consts Let_def)

text \<open>Start 2017-12-25: advancing to (12, 2017) gives 320, to (1, 2018) gives 20.\<close>

theorem Term_new_month_cycle_witness:
  "(\<exists>c' \<sigma>'. Term_new_month 12 2017 0 (TermContract_init sample_start sample_end) fresh_store
        = Inr (c', \<sigma>')
      \<and> fixed_cost (\<sigma>' 0) = 320 \<and> get_cost (\<sigma>' 0) = 320 \<and> term_minutes c' = 100
      \<and> saved_month c' = Some (12, 2017))
   \<and> (\<exists>c' \<sigma>'. Term_new_month 1 2018 0 (TermContract_init sample_start sample_end) fresh_store
        = Inr (c', \<sigma>')
      \<and> fixed_cost (\<sigma>' 0) = 20)"
  using Term_new_month_cycle [of "TermContract_init sample_start sample_end" sample_start
      12 2017 0 fresh_store]
    Term_new_month_cycle [of "TermContract_init sample_start sample_end" sample_start
      1 2018 0 fresh_store]
  by (simp add: Term_new_month_def samples bill_ops contract_consts)

section \<open>MTMContract\<close>

text \<open>
  C7. \<^verbatim>\<open>new_month\<close> of an MTMContract sets the label MTM at 0.05 a minute and adds a
  fixed cost of 50. \<^verbatim>\<open>cancel_contract\<close>, with a current bill, returns that bill's total and
  leaves every bill as it is.
\<close>

theorem MTM_new_month_and_cancel:
  "(\<exists>c' \<sigma>'. new_month mth yr b (MTM c) \<sigma> = Inr (MTM c', \<sigma>')
       \<and> rate_label (\<sigma>' b) = ''MTM'' \<and> rate_per_minute (\<sigma>' b) = 5 / 100
       \<and> fixed_cost (\<sigma>' b) = fixed_cost (\<sigma> b) + 50)
   \<and> (bill c = Some b \<longrightarrow>
        (\<exists>c'. cancel_contract (MTM c) \<sigma> = Inr (Some (get_cost (\<sigma> b)), MTM c', \<sigma>)))"
  by (simp add: MTM_new_month_def Contract_cancel_contract_def bill_ops contract_consts Let_def)

text \<open>
  Advance, then one call of 50 seconds: one billed minute, total 50.05, which is what
  cancelling returns.
\<close>

theorem MTM_new_month_and_cancel_witness:
  "\<exists>c1 \<sigma>1 c2 \<sigma>2 c3.
      new_month 1 2018 0 (MTM (MTMContract_init sample_start)) fresh_store = Inr (MTM c1, \<sigma>1)
      \<and> fixed_cost (\<sigma>1 0) = 50 \<and> bill c1 = Some 0
      \<and> bill_call \<lparr>duration = 50\<rparr> (MTM c1) \<sigma>1 = Inr (MTM c2, \<sigma>2)
      \<and> billed_minutes (\<sigma>2 0) = 1 \<and> get_cost (\<sigma>2 0) = 5005 / 100 \<and> bill c2 = Some 0
      \<and> cancel_contract (MTM c2) \<sigma>2 = Inr (Some (5005 / 100), MTM c3, \<sigma>2)"
proof -
  obtain c1 \<sigma>1 where 1:
    "new_month 1 2018 0 (MTM (MTMContract_init sample_start)) fresh_store = Inr (MTM c1, \<sigma>1)"
    "fixed_cost (\<sigma>1 0) = fixed_cost (fresh_store 0) + 50"
    using MTM_new_month_and_cancel [of 1 2018 0 "MTMContract_init sample_start" fresh_store]
    by blast
  from 1(1) have c1: "bill c1 = Some 0"
    and s1: "\<sigma>1 = fresh_store(0 := \<lparr>fixed_cost = 50, rate_per_minute = 5 / 100,
        rate_label = ''MTM'', free_min = 0, billed_minutes = 0\<rparr>)"
    by (auto simp add: MTM_new_month_def samples bill_ops contract_consts)
  define \<sigma>2 where "\<sigma>2 = \<sigma>1(0 := add_billed_minutes 1 (\<sigma>1 0))"
  have 2: "bill_call \<lparr>duration = 50\<rparr> (MTM c1) \<sigma>1 = Inr (MTM c1, \<sigma>2)"
    using c1 by (simp add: Contract_bill_call_def \<sigma>2_def ceil_minutes_div)
  have cost: "get_cost (\<sigma>2 0) = 5005 / 100" "billed_minutes (\<sigma>2 0) = 1"
    by (simp_all add: \<sigma>2_def s1 bill_ops)
  obtain c3 where 3: "cancel_contract (MTM c1) \<sigma>2 = Inr (Some (get_cost (\<sigma>2 0)), MTM c3, \<sigma>2)"
    using MTM_new_month_and_cancel [of 1 2018 0 c1 \<sigma>2] c1 by blast
  from 1 2 3 c1 cost show ?thesis
    by (auto simp add: samples bill_ops)
qed

section \<open>PrepaidContract\<close>

text \<open>
  C4. \<^verbatim>\<open>new_month\<close> of a PrepaidContract adds the negative of the balance it holds to
  the fixed cost of the bill; afterwards the balance is 25 lower if it was above -10, and
  unchanged otherwise.
\<close>

theorem Prepaid_new_month_balance:
  "\<exists>c' \<sigma>'. Prepaid_new_month mth yr b c \<sigma> = Inr (c', \<sigma>')
     \<and> fixed_cost (\<sigma>' b) = fixed_cost (\<sigma> b) + of_int (- balance c)
     \<and> (balance c > - 10 \<longrightarrow> balance c' = balance c - 25 \<and> balance c' < balance c)
     \<and> (\<not> balance c > - 10 \<longrightarrow> balance c' = balance c)"
  by (cases "balance c > - 10") (simp_all add: Prepaid_new_month_def bill_ops Let_def)

text \<open>Balance 100: fixed cost -100, balance 75. Balance -10: fixed cost 10, balance -10.\<close>

theorem Prepaid_new_month_balance_witness:
  "(\<exists>c' \<sigma>'. Prepaid_new_month 12 2017 0 (PrepaidContract_init sample_start 100) fresh_store
       = Inr (c', \<sigma>') \<and> fixed_cost (\<sigma>' 0) = - 100 \<and> balance c' = 75)
   \<and> (\<exists>c' \<sigma>'. Prepaid_new_month 12 2017 0 (PrepaidContract_init sample_start (- 10)) fresh_store
       = Inr (c', \<sigma>') \<and> fixed_cost (\<sigma>' 0) = 10 \<and> balance c' = - 10)"
  using Prepaid_new_month_balance [of 12 2017 0 "PrepaidContract_init sample_start 100" fresh_store]
    Prepaid_new_month_balance [of 12 2017 0 "PrepaidContract_init sample_start (- 10)" fresh_store]
  by (simp add: Prepaid_new_month_def samples bill_ops contract_consts)

text \<open>
  C5. \<^verbatim>\<open>cancel_contract\<close> of a PrepaidContract with a current bill: with a positive
  balance it adds the balance to the bill's fixed cost and returns the bill's new total;
  otherwise it returns 0.0 and leaves every bill as it is.
\<close>

theorem Prepaid_cancel_contract_settlement:
  assumes "bill c = Some b"
  shows "\<exists>fee c' \<sigma>'. Prepaid_cancel_contract c \<sigma> = Inr (fee, c', \<sigma>')
     \<and> (balance c > 0 \<longrightarrow>
          fixed_cost (\<sigma>' b) = fixed_cost (\<sigma> b) + of_int (balance c)
          \<and> fee = Some (get_cost (\<sigma>' b)))
     \<and> (balance c \<le> 0 \<longrightarrow> fee = Some 0 \<and> \<sigma>' = \<sigma>)"
  using assms
  by (cases "balance c > 0") (simp_all add: Prepaid_cancel_contract_def bill_ops Let_def)

text \<open>
  Balance 100 on a fresh bill: the fixed cost becomes 100 and 100 is returned. Balance
  -25: 0 is returned and the store is the same.
\<close>

theorem Prepaid_cancel_contract_settlement_witness:
  "(\<exists>c' \<sigma>'. Prepaid_cancel_contract
        ((PrepaidContract_init sample_start 100)\<lparr>bill := Some 0\<rparr>) fresh_store
       = Inr (Some 100, c', \<sigma>') \<and> fixed_cost (\<sigma>' 0) = 100)
   \<and> (\<exists>c'. Prepaid_cancel_contract
        ((PrepaidContract_init sample_start (- 25))\<lparr>bill := Some 0\<rparr>) fresh_store
       = Inr (Some 0, c', fresh_store))"
  using Prepaid_cancel_contract_settlement
      [of "(PrepaidContract_init sample_start 100)\<lparr>bill := Some 0\<rparr>" 0 fresh_store]
    Prepaid_cancel_contract_settlement
      [of "(PrepaidContract_init sample_start (- 25))\<lparr>bill := Some 0\<rparr>" 0 fresh_store]
  by (simp add: Prepaid_cancel_contract_def samples bill_ops)

section \<open>Minutes\<close>

text \<open>
  C9. The conversion of a duration in seconds to minutes is monotone, and the minutes
  returned are the least that cover the duration: \<open>(m - 1) * 60 < d \<le> m * 60\<close>. This
  holds for every integer duration, in particular for the non-negative ones.
\<close>

theorem ceil_minutes_monotone_bounds:
  "(d1 \<le> d2 \<longrightarrow> ceil_minutes d1 \<le> ceil_minutes d2)
   \<and> d \<le> ceil_minutes d * 60 \<and> (ceil_minutes d - 1) * 60 < d"
proof -
  have mono: "ceil_minutes d1 \<le> ceil_minutes d2" if "d1 \<le> d2"
    unfolding ceil_minutes_def using that by (intro ceiling_mono divide_right_mono) simp_all
  have "d \<le> ceil_minutes d * 60" "(ceil_minutes d - 1) * 60 < d"
    unfolding ceil_minutes_div by presburger+
  with mono show ?thesis by blast
qed

theorem ceil_minutes_monotone_bounds_witness:
  "ceil_minutes 10 \<le> ceil_minutes 61 \<and> ceil_minutes 10 = 1 \<and> ceil_minutes 61 = 2
   \<and> ceil_minutes 0 = 0 \<and> ceil_minutes 60 = 1"
  using ceil_minutes_monotone_bounds [of 10 61 0] by (simp add: ceil_minutes_div)

section \<open>Advancing twice\<close>

text \<open>
  \<^verbatim>\<open>new_month\<close> of a contract has no guard of its own. Called twice for (1, 2018) on
  the same bill, \<^verbatim>\<open>TermContract.new_month\<close> adds the monthly fee twice: the fixed cost goes
  from 20 to 40, and nothing else changes.
\<close>

theorem Term_new_month_twice_counterexample:
  "Term_new_month 1 2018 0 (TermContract_init sample_start sample_end) fresh_store
     = Inr (\<lparr>start = Some sample_start, bill = Some 0, end_date = Some sample_end,
              term_minutes = 100, saved_month = Some (1, 2018)\<rparr>,
            fresh_store(0 := \<lparr>fixed_cost = 20, rate_per_minute = 1 / 10, rate_label = ''TERM'',
              free_min = 0, billed_minutes = 0\<rparr>))
   \<and> Term_new_month 1 2018 0
       \<lparr>start = Some sample_start, bill = Some 0, end_date = Some sample_end,
         term_minutes = 100, saved_month = Some (1, 2018)\<rparr>
       (fresh_store(0 := \<lparr>fixed_cost = 20, rate_per_minute = 1 / 10, rate_label = ''TERM'',
              free_min = 0, billed_minutes = 0\<rparr>))
     = Inr (\<lparr>start = Some sample_start, bill = Some 0, end_date = Some sample_end,
              term_minutes = 100, saved_month = Some (1, 2018)\<rparr>,
            fresh_store(0 := \<lparr>fixed_cost = 40, rate_per_minute = 1 / 10, rate_label = ''TERM'',
              free_min = 0, billed_minutes = 0\<rparr>))"
  by (simp add: Term_new_month_def TermContract_init_def sample_start_def sample_end_def
      bill_ops contract_consts fresh_store_def)

text \<open>
  C8, as amended. The guard is in \<^verbatim>\<open>PhoneLine.new_month\<close>: once a phone line has
  advanced to (month, year), it has a bill for that cycle, and advancing it to the same
  (month, year) again changes neither the line nor its contract nor any bill.
\<close>

theorem PhoneLine_new_month_idempotent:
  assumes "PhoneLine_new_month mth yr pl h = Inr (pl1, h1)"
  shows "(mth, yr) \<in> dom (bills pl1) \<and> PhoneLine_new_month mth yr pl1 h1 = Inr (pl1, h1)"
  using assms
  by (auto simp add: PhoneLine_new_month_def Let_def split: if_splits sum.splits)

text \<open>The term line of the sample customer, advanced twice to (1, 2018): 20, and 20 again.\<close>

theorem PhoneLine_new_month_idempotent_witness:
  "\<exists>pl1 h1.
      PhoneLine_new_month 1 2018
        (PhoneLine_init ''867-5309'' (Term (TermContract_init sample_start sample_end)))
        empty_heap = Inr (pl1, h1)
      \<and> bills pl1 (1, 2018) = Some 0 \<and> fixed_cost (bill_at h1 0) = 20
      \<and> PhoneLine_new_month 1 2018 pl1 h1 = Inr (pl1, h1)"
proof -
  obtain pl1 h1 where 1:
    "PhoneLine_new_month 1 2018
        (PhoneLine_init ''867-5309'' (Term (TermContract_init sample_start sample_end)))
        empty_heap = Inr (pl1, h1)"
    "bills pl1 (1, 2018) = Some 0" "fixed_cost (bill_at h1 0) = 20"
    by (simp add: PhoneLine_new_month_def PhoneLine_init_def empty_heap_def Term_new_month_def
        samples bill_ops contract_consts)
  from PhoneLine_new_month_idempotent [OF 1(1)] 1 show ?thesis by blast
qed

section \<open>Cancelling a phone line\<close>

text \<open>From an index on, no line has the number: the loop runs out and changes nothing.\<close>

lemma cancel_loop_no_match:
  assumes "\<And>j. i \<le> j \<Longrightarrow> j < length ls \<Longrightarrow> get_number (L (ls ! j)) \<noteq> num"
  shows "cancel_loop num i fee ls L \<sigma> = Inr (fee, ls, L, \<sigma>)"
  using assms
proof (induction "length ls - i" arbitrary: i)
  case 0
  then show ?case by (subst cancel_loop.simps) simp
next
  case (Suc n)
  from Suc.hyps(2) have lt: "i < length ls" by simp
  have nm: "get_number (L (ls ! i)) \<noteq> num" using Suc.prems [of i] lt by simp
  have "cancel_loop num (i + 1) fee ls L \<sigma> = Inr (fee, ls, L, \<sigma>)"
    using Suc.hyps(2) Suc.prems by (intro Suc.hyps(1)) simp_all
  with lt nm show ?case by (subst cancel_loop.simps) (simp add: Let_def)
qed

text \<open>Lines that do not have the number are passed over.\<close>

lemma cancel_loop_skip_prefix:
  assumes "\<And>j. i \<le> j \<Longrightarrow> j < k \<Longrightarrow> get_number (L (ls ! j)) \<noteq> num"
    and "i \<le> k" and "k \<le> length ls"
  shows "cancel_loop num i fee ls L \<sigma> = cancel_loop num k fee ls L \<sigma>"
  using assms
proof (induction "k - i" arbitrary: i)
  case 0
  then show ?case by simp
next
  case (Suc n)
  from Suc.hyps(2) Suc.prems(3) have lt: "i < k" "i < length ls" by simp_all
  have nm: "get_number (L (ls ! i)) \<noteq> num" using Suc.prems(1) [of i] lt by simp
  have "cancel_loop num (i + 1) fee ls L \<sigma> = cancel_loop num k fee ls L \<sigma>"
    using Suc.hyps(2) Suc.prems lt by (intro Suc.hyps(1)) simp_all
  with lt nm show ?case by (subst cancel_loop.simps) (simp add: Let_def)
qed

text \<open>
  One line \<open>r\<close> has the number: the loop reaches it, removes it, cancels it, and passes
  over what is left of the list.
\<close>

lemma cancel_loop_one_match:
  assumes xs: "\<forall>x \<in> set xs. get_number (L x) \<noteq> num"
    and ys: "\<forall>y \<in> set ys. get_number (L y) \<noteq> num"
    and r: "get_number (L r) = num"
  shows "cancel_loop num 0 fee (xs @ r # ys) L \<sigma> =
     (case cancel_line (L r) \<sigma> of
        Inl e \<Rightarrow> Inl e
      | Inr (f, pl', \<sigma>') \<Rightarrow> Inr (f, xs @ ys, L(r := pl'), \<sigma>'))"
proof -
  let ?ls = "xs @ r # ys"
  have rx: "r \<notin> set xs" and ry: "r \<notin> set ys" using xs ys r by auto
  have "cancel_loop num 0 fee ?ls L \<sigma> = cancel_loop num (length xs) fee ?ls L \<sigma>"
    using xs by (intro cancel_loop_skip_prefix) (simp_all add: nth_append)
  also have "\<dots> = (case cancel_line (L r) \<sigma> of
        Inl e \<Rightarrow> Inl e
      | Inr (f, pl', \<sigma>') \<Rightarrow> cancel_loop num (length xs + 1) f (xs @ ys) (L(r := pl')) \<sigma>')"
  proof -
    have "remove1 r ?ls = xs @ ys" using rx by (simp add: remove1_append)
    with r show ?thesis
      by (subst cancel_loop.simps) (simp add: Let_def split: sum.splits)
  qed
  also have "\<dots> = (case cancel_line (L r) \<sigma> of
        Inl e \<Rightarrow> Inl e
      | Inr (f, pl', \<sigma>') \<Rightarrow> Inr (f, xs @ ys, L(r := pl'), \<sigma>'))"
  proof -
    have "cancel_loop num (length xs + 1) f (xs @ ys) (L(r := pl')) \<sigma>'
        = Inr (f, xs @ ys, L(r := pl'), \<sigma>')" for f pl' \<sigma>'
    proof (rule cancel_loop_no_match)
      fix j assume j: "length xs + 1 \<le> j" "j < length (xs @ ys)"
      then have "(xs @ ys) ! j \<in> set ys" by (simp add: nth_append)
      with ys ry show "get_number ((L(r := pl')) ((xs @ ys) ! j)) \<noteq> num" by auto
    qed
    then show ?thesis by (simp split: sum.splits)
  qed
  finally show ?thesis .
qed

text \<open>
  C10. \<^verbatim>\<open>cancel_phone_line\<close>: when no line of the customer has the number, it returns
  None and changes nothing. When exactly one line \<open>r\<close> has it (the lines \<open>xs\<close> before it
  and \<open>ys\<close> after it do not), the list of lines becomes \<open>xs @ ys\<close>, the number is no
  longer among the customer's numbers, only the contract of \<open>r\<close> is touched, and the value
  returned is the one the contract's \<^verbatim>\<open>cancel_contract\<close> returns; an exception of
  \<^verbatim>\<open>cancel_contract\<close> is passed on.
\<close>

theorem cancel_phone_line_one_line:
  "(num \<notin> set (get_phone_numbers c L) \<longrightarrow> cancel_phone_line num c L \<sigma> = Inr (None, c, L, \<sigma>))
   \<and> (phone_lines c = xs @ r # ys \<and> get_number (L r) = num
        \<and> (\<forall>x \<in> set xs \<union> set ys. get_number (L x) \<noteq> num) \<longrightarrow>
       (\<forall>e. cancel_contract (contract (L r)) \<sigma> = Inl e \<longrightarrow>
          cancel_phone_line num c L \<sigma> = Inl e)
       \<and> (\<forall>fee k \<sigma>'. cancel_contract (contract (L r)) \<sigma> = Inr (fee, k, \<sigma>') \<longrightarrow>
            cancel_phone_line num c L \<sigma>
              = Inr (fee, c\<lparr>phone_lines := xs @ ys\<rparr>, L(r := (L r)\<lparr>contract := k\<rparr>), \<sigma>')
            \<and> num \<notin> set (get_phone_numbers (c\<lparr>phone_lines := xs @ ys\<rparr>)
                          (L(r := (L r)\<lparr>contract := k\<rparr>)))))"
proof (intro conjI impI allI)
  assume "num \<notin> set (get_phone_numbers c L)"
  then have "cancel_loop num 0 None (phone_lines c) L \<sigma> = Inr (None, phone_lines c, L, \<sigma>)"
    by (intro cancel_loop_no_match) (auto simp add: get_phone_numbers_def)
  then show "cancel_phone_line num c L \<sigma> = Inr (None, c, L, \<sigma>)"
    by (simp add: cancel_phone_line_def)
next
  fix e
  assume a: "phone_lines c = xs @ r # ys \<and> get_number (L r) = num
        \<and> (\<forall>x \<in> set xs \<union> set ys. get_number (L x) \<noteq> num)"
    and e: "cancel_contract (contract (L r)) \<sigma> = Inl e"
  from a have "cancel_loop num 0 None (phone_lines c) L \<sigma> =
     (case cancel_line (L r) \<sigma> of
        Inl e \<Rightarrow> Inl e
      | Inr (f, pl', \<sigma>') \<Rightarrow> Inr (f, xs @ ys, L(r := pl'), \<sigma>'))"
    using cancel_loop_one_match [of xs L num ys r None \<sigma>] by simp
  with e show "cancel_phone_line num c L \<sigma> = Inl e"
    by (simp add: cancel_phone_line_def cancel_line_def)
next
  fix fee k \<sigma>'
  assume a: "phone_lines c = xs @ r # ys \<and> get_number (L r) = num
        \<and> (\<forall>x \<in> set xs \<union> set ys. get_number (L x) \<noteq> num)"
    and k: "cancel_contract (contract (L r)) \<sigma> = Inr (fee, k, \<sigma>')"
  from a have "cancel_loop num 0 None (phone_lines c) L \<sigma> =
     (case cancel_line (L r) \<sigma> of
        Inl e \<Rightarrow> Inl e
      | Inr (f, pl', \<sigma>') \<Rightarrow> Inr (f, xs @ ys, L(r := pl'), \<sigma>'))"
    using cancel_loop_one_match [of xs L num ys r None \<sigma>] by simp
  with k show "cancel_phone_line num c L \<sigma>
      = Inr (fee, c\<lparr>phone_lines := xs @ ys\<rparr>, L(r := (L r)\<lparr>contract := k\<rparr>), \<sigma>')"
    by (simp add: cancel_phone_line_def cancel_line_def)
  from a have "r \<notin> set xs \<union> set ys" by blast
  then have "(L(r := (L r)\<lparr>contract := k\<rparr>)) x = L x" if "x \<in> set xs \<union> set ys" for x
    using that by auto
  with a have "get_number ((L(r := (L r)\<lparr>contract := k\<rparr>)) x) \<noteq> num"
    if "x \<in> set xs \<union> set ys" for x
    using that by metis
  then show "num \<notin> set (get_phone_numbers (c\<lparr>phone_lines := xs @ ys\<rparr>)
                          (L(r := (L r)\<lparr>contract := k\<rparr>)))"
    unfolding get_phone_numbers_def by auto
qed

text \<open>
  The sample customer after \<^verbatim>\<open>new_month(12, 2017)\<close>: a number it does not own gives
  None; cancelling the month-to-month line returns its bill's total, 50, and leaves the
  other two lines.
\<close>

theorem cancel_phone_line_one_line_witness:
  "\<exists>L h. Customer_new_month 12 2017 sample_customer sample_lines empty_heap = Inr (L, h)
     \<and> get_phone_numbers sample_customer L = [''867-5309'', ''273-8255'', ''649-2568'']
     \<and> cancel_phone_line ''555-0100'' sample_customer L (bill_at h)
         = Inr (None, sample_customer, L, bill_at h)
     \<and> (\<exists>L'. cancel_phone_line ''273-8255'' sample_customer L (bill_at h)
           = Inr (Some 50, sample_customer\<lparr>phone_lines := [0, 2]\<rparr>, L', bill_at h)
         \<and> get_phone_numbers (sample_customer\<lparr>phone_lines := [0, 2]\<rparr>) L'
           = [''867-5309'', ''649-2568''])"
proof -
  obtain L h where adv:
    "Customer_new_month 12 2017 sample_customer sample_lines empty_heap = Inr (L, h)"
    and nums: "number (L 0) = ''867-5309''" "number (L 1) = ''273-8255''"
      "number (L 2) = ''649-2568''"
    and mtm: "contract (L 1) = MTM ((MTMContract_init sample_start)\<lparr>bill := Some 1\<rparr>)"
    and cost: "get_cost (bill_at h 1) = 50"
    by (simp add: Customer_new_month_def sample_customer_def sample_lines_def empty_heap_def
      add_phone_line_def Customer_init_def PhoneLine_init_def PhoneLine_new_month_def
      Term_new_month_def MTM_new_month_def Prepaid_new_month_def samples bill_ops contract_consts)
  have pls: "phone_lines sample_customer = [0] @ 1 # [2]"
    by (simp add: sample_customer_def add_phone_line_def Customer_init_def)
  have all: "get_phone_numbers sample_customer L = [''867-5309'', ''273-8255'', ''649-2568'']"
    using nums by (simp add: get_phone_numbers_def get_number_def pls)
  have none: "cancel_phone_line ''555-0100'' sample_customer L (bill_at h)
         = Inr (None, sample_customer, L, bill_at h)"
    using cancel_phone_line_one_line [of "''555-0100''" sample_customer L "bill_at h"] all
    by simp
  define k where "k = MTM ((MTMContract_init sample_start)\<lparr>start := None, bill := Some 1\<rparr>)"
  define L' where "L' = L(1 := (L 1)\<lparr>contract := k\<rparr>)"
  have cc: "cancel_contract (contract (L 1)) (bill_at h) = Inr (Some 50, k, bill_at h)"
    using cost unfolding mtm k_def
    by (simp add: Contract_cancel_contract_def MTMContract_init_def)
  have one: "cancel_phone_line ''273-8255'' sample_customer L (bill_at h)
           = Inr (Some 50, sample_customer\<lparr>phone_lines := [0, 2]\<rparr>, L', bill_at h)"
    using cancel_phone_line_one_line
        [of "''273-8255''" sample_customer L "bill_at h" "[0]" 1 "[2]"] pls nums cc
    by (simp add: get_number_def L'_def)
  have rest: "get_phone_numbers (sample_customer\<lparr>phone_lines := [0, 2]\<rparr>) L'
           = [''867-5309'', ''649-2568'']"
    using nums by (simp add: get_phone_numbers_def get_number_def L'_def)
  from adv all none one rest show ?thesis by blast
qed

end
